theory Spec2Isabelle
  imports Complex_Main
begin

section \<open>Numbers\<close>

text \<open>
  The geometry of the program (package \<open>game\<close>, the hit boxes and \<open>castRays\<close>)
  computes in Go's \<open>float64\<close>, and its results depend on the rounding: it is modelled
  in binary64 below. The state of the entities (positions, angles, the movement of a tick)
  is kept in \<^typ>\<open>real\<close>, and a line built from it holds the binary64 values nearest
  to its coordinates. Go's \<open>int\<close> (health, damage) is modelled as \<^typ>\<open>int\<close>; the
  theorems below only subtract non-negative amounts from values that are in range, where a
  64-bit integer does not wrap.
\<close>

subsection \<open>Binary64\<close>

text \<open>
  A \<open>float64\<close> is a finite number, an infinity or NaN. A zero carries no sign here:
  \<open>-0\<close> and \<open>+0\<close> are one value (Go's comparisons do not tell them apart either).
\<close>

datatype float64 = Float real | PosInf | NegInf | NaN

text \<open>Rounding to the nearest integer, a tie to the even one.\<close>

definition roundEven :: "real \<Rightarrow> int" where
  "roundEven z =
     (let f = \<lfloor>z\<rfloor> in
      if z - of_int f < 1 / 2 then f
      else if 1 / 2 < z - of_int f then f + 1
      else if even f then f else f + 1)"

text \<open>
  The exponent of the unit in the last place of a number: 53 significant bits, and the
  fixed unit \<open>2 powi (- 1074)\<close> of the subnormal range.
\<close>

definition quantum :: "real \<Rightarrow> int" where
  "quantum x = max (\<lfloor>log 2 \<bar>x\<bar>\<rfloor> - 52) (- 1074)"

text \<open>
  The binary64 value of a real number: round to nearest, ties to even, and to an infinity
  when the rounded value reaches \<open>2 ^ 1024\<close>.
\<close>

definition round64 :: "real \<Rightarrow> float64" where
  "round64 x =
     (if x = 0 then Float 0
      else
        let q = quantum x;
            y = of_int (roundEven (x / 2 powi q)) * 2 powi q
        in if 2 ^ 1024 \<le> y then PosInf
           else if y \<le> - (2 ^ 1024) then NegInf
           else Float y)"

text \<open>The sign of a value that is not NaN, and the infinity of a sign.\<close>

fun signOf :: "float64 \<Rightarrow> real" where
  "signOf (Float x) = sgn x"
| "signOf PosInf = 1"
| "signOf NegInf = - 1"
| "signOf NaN = 0"

definition infOf :: "real \<Rightarrow> float64" where
  "infOf s = (if 0 < s then PosInf else NegInf)"

fun fneg :: "float64 \<Rightarrow> float64" where
  "fneg (Float x) = Float (- x)"
| "fneg PosInf = NegInf"
| "fneg NegInf = PosInf"
| "fneg NaN = NaN"

fun fadd :: "float64 \<Rightarrow> float64 \<Rightarrow> float64" where
  "fadd (Float x) (Float y) = round64 (x + y)"
| "fadd NaN b = NaN"
| "fadd a NaN = NaN"
| "fadd PosInf NegInf = NaN"
| "fadd NegInf PosInf = NaN"
| "fadd PosInf b = PosInf"
| "fadd NegInf b = NegInf"
| "fadd a PosInf = PosInf"
| "fadd a NegInf = NegInf"

definition fsub :: "float64 \<Rightarrow> float64 \<Rightarrow> float64" where
  "fsub a b = fadd a (fneg b)"

text \<open>An infinity times zero is NaN.\<close>

fun fmul :: "float64 \<Rightarrow> float64 \<Rightarrow> float64" where
  "fmul (Float x) (Float y) = round64 (x * y)"
| "fmul NaN b = NaN"
| "fmul a NaN = NaN"
| "fmul a b = (if signOf a * signOf b = 0 then NaN else infOf (signOf a * signOf b))"

text \<open>
  Zero over zero and an infinity over an infinity are NaN. A number that is not zero,
  divided by zero, is an infinity; with the one zero of the model it has the sign of the
  numerator. The program divides by \<open>denom\<close>, after the test that it is not zero, and
  by constants.
\<close>

fun fdiv :: "float64 \<Rightarrow> float64 \<Rightarrow> float64" where
  "fdiv (Float x) (Float y) =
     (if y = 0 then (if x = 0 then NaN else infOf x) else round64 (x / y))"
| "fdiv NaN b = NaN"
| "fdiv a NaN = NaN"
| "fdiv (Float x) b = Float 0"
| "fdiv a (Float y) = infOf (signOf a * (if y < 0 then - 1 else 1))"
| "fdiv a b = NaN"

text \<open>The comparisons \<open><\<close>, \<open><=\<close> and \<open>==\<close> of Go: each is false when an operand is NaN.\<close>

fun flt :: "float64 \<Rightarrow> float64 \<Rightarrow> bool" where
  "flt (Float x) (Float y) = (x < y)"
| "flt NaN b = False"
| "flt a NaN = False"
| "flt a NegInf = False"
| "flt PosInf b = False"
| "flt a b = True"

definition feq :: "float64 \<Rightarrow> float64 \<Rightarrow> bool" where
  "feq a b = (a \<noteq> NaN \<and> a = b)"

definition fle :: "float64 \<Rightarrow> float64 \<Rightarrow> bool" where
  "fle a b = (flt a b \<or> feq a b)"

text \<open>
  The operators of the source: \<open>a + b\<close>, \<open>a - b\<close>, \<open>a * b\<close>, \<open>a / b\<close>, \<open>a < b\<close>
  (and \<open>a > b\<close> for \<open>b < a\<close>) on \<^typ>\<open>float64\<close> are the operations above.
\<close>

instantiation float64 :: "{zero, one, plus, minus, uminus, times, inverse, ord}"
begin

definition zero_float64_def: "(0 :: float64) = Float 0"

definition one_float64_def: "(1 :: float64) = Float 1"

definition plus_float64_def: "(a :: float64) + b = fadd a b"

definition minus_float64_def: "(a :: float64) - b = fsub a b"

definition uminus_float64_def: "- (a :: float64) = fneg a"

definition times_float64_def: "(a :: float64) * b = fmul a b"

definition inverse_float64_def: "inverse (a :: float64) = fdiv (Float 1) a"

definition divide_float64_def: "(a :: float64) div b = fdiv a b"

definition less_float64_def: "(a :: float64) < b \<longleftrightarrow> flt a b"

definition less_eq_float64_def: "(a :: float64) \<le> b \<longleftrightarrow> fle a b"

instance ..

end

subsection \<open>Library functions\<close>

text \<open>
  \<open>math.Cos\<close>, \<open>math.Sin\<close>, \<open>math.Atan2\<close> and \<open>math.Hypot\<close> are Go library
  functions. They are taken as the binary64 values of the mathematical functions, with the
  special cases that the Go documentation lists; \<open>atan2\<close> is the mathematical function.
\<close>

definition atan2 :: "real \<Rightarrow> real \<Rightarrow> real" where
  "atan2 y x =
     (if 0 < x then arctan (y / x)
      else if x < 0 \<and> 0 \<le> y then arctan (y / x) + pi
      else if x < 0 \<and> y < 0 then arctan (y / x) - pi
      else if 0 < y then pi / 2
      else if y < 0 then - (pi / 2)
      else 0)"

definition Cos :: "float64 \<Rightarrow> float64" where
  "Cos a = (case a of Float x \<Rightarrow> round64 (cos x) | _ \<Rightarrow> NaN)"

definition Sin :: "float64 \<Rightarrow> float64" where
  "Sin a = (case a of Float x \<Rightarrow> round64 (sin x) | _ \<Rightarrow> NaN)"

fun Atan2 :: "float64 \<Rightarrow> float64 \<Rightarrow> float64" where
  "Atan2 (Float y) (Float x) = round64 (atan2 y x)"
| "Atan2 NaN x = NaN"
| "Atan2 y NaN = NaN"
| "Atan2 PosInf PosInf = round64 (pi / 4)"
| "Atan2 NegInf PosInf = round64 (- (pi / 4))"
| "Atan2 PosInf NegInf = round64 (3 * pi / 4)"
| "Atan2 NegInf NegInf = round64 (- (3 * pi / 4))"
| "Atan2 (Float y) PosInf = Float 0"
| "Atan2 (Float y) NegInf = (if y < 0 then round64 (- pi) else round64 pi)"
| "Atan2 PosInf (Float x) = round64 (pi / 2)"
| "Atan2 NegInf (Float x) = round64 (- (pi / 2))"

definition Hypot :: "float64 \<Rightarrow> float64 \<Rightarrow> float64" where
  "Hypot p q =
     (if p = PosInf \<or> p = NegInf \<or> q = PosInf \<or> q = NegInf then PosInf
      else case (p, q) of
             (Float x, Float y) \<Rightarrow> round64 (sqrt (x * x + y * y))
           | _ \<Rightarrow> NaN)"

section \<open>Geometry primitives (package game)\<close>

record Line =
  X1 :: float64
  Y1 :: float64
  X2 :: float64
  Y2 :: float64

definition NewRay :: "float64 \<Rightarrow> float64 \<Rightarrow> float64 \<Rightarrow> float64 \<Rightarrow> Line" where
  "NewRay x y len angle =
     \<lparr>X1 = x, Y1 = y, X2 = x + len * Cos angle, Y2 = y + len * Sin angle\<rparr>"

definition Angle_of :: "Line \<Rightarrow> float64" where
  "Angle_of l = Atan2 (Y2 l - Y1 l) (X2 l - X1 l)"

definition Rect :: "float64 \<Rightarrow> float64 \<Rightarrow> float64 \<Rightarrow> float64 \<Rightarrow> Line list" where
  "Rect x y w h =
     [\<lparr>X1 = x, Y1 = y, X2 = x, Y2 = y + h\<rparr>,
      \<lparr>X1 = x, Y1 = y + h, X2 = x + w, Y2 = y + h\<rparr>,
      \<lparr>X1 = x + w, Y1 = y + h, X2 = x + w, Y2 = y\<rparr>,
      \<lparr>X1 = x + w, Y1 = y, X2 = x, Y2 = y\<rparr>]"

text \<open>The three local variables of \<open>Intersection\<close>, in the order the source computes them.\<close>

definition denom :: "Line \<Rightarrow> Line \<Rightarrow> float64" where
  "denom l1 l2 = (X1 l1 - X2 l1) * (Y1 l2 - Y2 l2) - (Y1 l1 - Y2 l1) * (X1 l2 - X2 l2)"

definition tNum :: "Line \<Rightarrow> Line \<Rightarrow> float64" where
  "tNum l1 l2 = (X1 l1 - X1 l2) * (Y1 l2 - Y2 l2) - (Y1 l1 - Y1 l2) * (X1 l2 - X2 l2)"

definition uNum :: "Line \<Rightarrow> Line \<Rightarrow> float64" where
  "uNum l1 l2 = - ((X1 l1 - X2 l1) * (Y1 l1 - Y1 l2) - (Y1 l1 - Y2 l1) * (X1 l1 - X1 l2))"

text \<open>
  \<open>Intersection\<close> returns \<open>(x, y, ok)\<close>; every failing return of the source is
  \<open>(0, 0, false)\<close>. Each operation rounds, and each comparison is false on NaN.
\<close>

definition Intersection :: "Line \<Rightarrow> Line \<Rightarrow> float64 \<times> float64 \<times> bool" where
  "Intersection l1 l2 =
     (if feq (denom l1 l2) 0 then (0, 0, False)
      else
        let t = tNum l1 l2 / denom l1 l2 in
        if t > 1 \<or> t < 0 then (0, 0, False)
        else
          let u = uNum l1 l2 / denom l1 l2 in
          if u > 1 \<or> u < 0 then (0, 0, False)
          else (X1 l1 + t * (X2 l1 - X1 l1), Y1 l1 + t * (Y2 l1 - Y1 l1), True))"

definition intersects :: "Line \<Rightarrow> Line \<Rightarrow> bool" where
  "intersects l1 l2 = snd (snd (Intersection l1 l2))"

text \<open>The parametric coefficients the source names \<open>t\<close> and \<open>u\<close>, as it computes them.\<close>

definition tParam :: "Line \<Rightarrow> Line \<Rightarrow> float64" where
  "tParam l1 l2 = tNum l1 l2 / denom l1 l2"

definition uParam :: "Line \<Rightarrow> Line \<Rightarrow> float64" where
  "uParam l1 l2 = uNum l1 l2 / denom l1 l2"

section \<open>Boundary objects\<close>

record Object =
  Walls :: "Line list"

text \<open>A Go run-time panic is a value of the model.\<close>

datatype fault = IndexOutOfRange

text \<open>
  \<open>Points\<close> reads \<open>o.Walls[0]\<close> after its loop, which panics on an object without walls.
  With at least one wall \<open>points\<close> is not empty and \<open>points[len(points)-1]\<close> is its last
  element.
\<close>

definition Points :: "Object \<Rightarrow> fault + (float64 \<times> float64) list" where
  "Points obj =
     (let points = map (\<lambda>wall. (X2 wall, Y2 wall)) (Walls obj) in
      case Walls obj of
        [] \<Rightarrow> Inl IndexOutOfRange
      | w0 # _ \<Rightarrow>
          let p = (X1 w0, Y1 w0) in
          if \<not> feq (fst p) (fst (last points)) \<and> \<not> feq (snd p) (snd (last points))
          then Inr (points @ [(X1 w0, Y1 w0)])
          else Inr points)"

section \<open>Entities (package player)\<close>

definition MaxHealth :: int where
  "MaxHealth = 100"

definition PlayerSpeed :: real where
  "PlayerSpeed = 1"

definition PlayerSprintSpeedFactor :: real where
  "PlayerSprintSpeedFactor = 17 / 10"

definition BulletSpeed :: real where
  "BulletSpeed = 80"

text \<open>Times and durations are counted in nanoseconds; \<open>time.Time{}\<close> is 0.\<close>

definition ShootCooldown :: int where
  "ShootCooldown = 200 * 1000000"

text \<open>
  Of an \<open>ebiten.Image\<close> the program reads only the width and height of its bounds.
  The sprite itself is an asset file, so \<open>PlayerSprite\<close> is a parameter of
  \<open>NewPlayer\<close>.
\<close>

record Image =
  Dx :: int
  Dy :: int

text \<open>
  Several Go structs have fields \<open>X\<close> and \<open>Y\<close>; the fields of \<open>Bullet\<close> are
  written \<open>BX\<close>, \<open>BY\<close>, those of \<open>Obstacle\<close> \<open>OX\<close>, \<open>OY\<close>, and those of the
  \<open>PlayerUpdate\<close> payload carry the prefix \<open>U\<close>.
\<close>

record Bullet =
  OwnerID :: string
  BX :: real
  BY :: real
  EndX :: real
  EndY :: real
  Direction :: real
  Velocity :: real

record Player =
  ID :: string
  X :: real
  Y :: real
  Angle :: real
  Health :: int
  Bullets :: "Bullet list"
  lastShot :: int
  sprite :: Image

definition SpriteBounds :: "Player \<Rightarrow> Image" where
  "SpriteBounds p = sprite p"

text \<open>
  The arguments of \<open>Rect\<close> are the binary64 values of the four expressions of the
  source; \<open>Rect\<close> adds in binary64.
\<close>

definition HitBox :: "Player \<Rightarrow> Object" where
  "HitBox p =
     (let dx = real_of_int (Dx (SpriteBounds p)) * 0.25;
          dy = real_of_int (Dy (SpriteBounds p)) * 0.25
      in \<lparr>Walls = Rect (round64 (X p - dx / 2)) (round64 (Y p - dy / 2))
                     (round64 dx) (round64 dy)\<rparr>)"

definition NewPlayer :: "Image \<Rightarrow> string \<Rightarrow> real \<Rightarrow> real \<Rightarrow> Player" where
  "NewPlayer PlayerSprite pid x y =
     \<lparr>ID = pid, X = x, Y = y, Angle = 0, Health = MaxHealth, Bullets = [],
      lastShot = 0, sprite = PlayerSprite\<rparr>"

text \<open>
  What \<open>Player.Update\<close> reads from the outside world in one tick: the pressed keys, the
  cursor, the mouse button, the clock (both clock readings of a tick are taken as the
  same instant) and the value of \<open>rand.Float64()\<close>.
\<close>

record Input =
  KeyShiftLeft :: bool
  KeyW :: bool
  KeyS :: bool
  KeyA :: bool
  KeyD :: bool
  CursorPosition :: "int \<times> int"
  MouseButtonLeft :: bool
  now :: int
  randFloat :: real

definition Shoot :: "real \<Rightarrow> Player \<Rightarrow> Player" where
  "Shoot r p =
     (let angleRecoil = (r - 0.5) / 10;
          bullet = \<lparr>OwnerID = ID p, BX = X p, BY = Y p,
                    EndX = X p + cos (Angle p + angleRecoil) * BulletSpeed,
                    EndY = Y p + sin (Angle p + angleRecoil) * BulletSpeed,
                    Direction = Angle p + angleRecoil, Velocity = BulletSpeed\<rparr>
      in p\<lparr>Bullets := Bullets p @ [bullet]\<rparr>)"

definition Bullet_Update :: "Bullet \<Rightarrow> Bullet" where
  "Bullet_Update b =
     (let dx = cos (Direction b) * Velocity b;
          dy = sin (Direction b) * Velocity b
      in b\<lparr>BX := BX b + dx, BY := BY b + dy, EndX := EndX b + dx, EndY := EndY b + dy\<rparr>)"

definition OutOfBounds :: "Bullet \<Rightarrow> real \<Rightarrow> real \<Rightarrow> bool" where
  "OutOfBounds b width height = (BX b < 0 \<or> BX b > width \<or> BY b < 0 \<or> BY b > height)"

definition Bullet_Line :: "Bullet \<Rightarrow> Line" where
  "Bullet_Line b =
     \<lparr>X1 = round64 (BX b), Y1 = round64 (BY b), X2 = round64 (EndX b), Y2 = round64 (EndY b)\<rparr>"

text \<open>
  Removing element \<open>i\<close> of a slice, \<open>append(s[:i], s[i+1:]...)\<close>.
\<close>

definition removeAt :: "nat \<Rightarrow> 'a list \<Rightarrow> 'a list" where
  "removeAt i s = take i s @ drop (Suc i) s"

text \<open>
  The bullet loop of \<open>Player.Update\<close>, \<open>for i := len(p.Bullets) - 1; i >= 0; i--\<close>:
  the first argument is \<open>i + 1\<close>. A removal at \<open>i\<close> leaves the elements below \<open>i\<close>
  in place, so every read is in range.
\<close>

fun updateBullets :: "nat \<Rightarrow> Bullet list \<Rightarrow> Bullet list" where
  "updateBullets 0 bs = bs"
| "updateBullets (Suc i) bs =
     (let bs1 = bs[i := Bullet_Update (bs ! i)]
      in if OutOfBounds (bs1 ! i) 1600 900
         then updateBullets i (removeAt i bs1)
         else updateBullets i bs1)"

definition Player_Update :: "Input \<Rightarrow> bool \<Rightarrow> Player \<Rightarrow> Player" where
  "Player_Update inp hitsObstacle p =
     (if Health p \<le> 0 then p
      else
        let movementSpeed =
              (if KeyShiftLeft inp then PlayerSpeed * PlayerSprintSpeedFactor else PlayerSpeed);
            moveY0 = (if KeyW inp then 0 - movementSpeed else 0);
            moveY = (if KeyS inp then moveY0 + movementSpeed else moveY0);
            moveX0 = (if KeyA inp then 0 - movementSpeed else 0);
            moveX = (if KeyD inp then moveX0 + movementSpeed else moveX0);
            p1 = p\<lparr>X := X p + moveX\<rparr>;
            p2 = (if hitsObstacle then p1\<lparr>X := X p1 - moveX\<rparr> else p1);
            p3 = p2\<lparr>Y := Y p2 + moveY\<rparr>;
            p4 = (if hitsObstacle then p3\<lparr>Y := Y p3 - moveY\<rparr> else p3);
            dx = real_of_int (fst (CursorPosition inp)) - X p4;
            dy = real_of_int (snd (CursorPosition inp)) - Y p4;
            p5 = p4\<lparr>Angle := atan2 dy dx\<rparr>;
            p6 = (if MouseButtonLeft inp \<and> now inp - lastShot p5 > ShootCooldown
                  then (Shoot (randFloat inp) p5)\<lparr>lastShot := now inp\<rparr>
                  else p5)
        in p6\<lparr>Bullets := updateBullets (length (Bullets p6)) (Bullets p6)\<rparr>)"

section \<open>The game (package main)\<close>

record Obstacle =
  OX :: real
  OY :: real
  Width :: real
  Height :: real

record PlayerUpdate =
  UID :: string
  UX :: real
  UY :: real
  UAngle :: real
  UHealth :: int
  UBullets :: "Bullet list"

record PlayerHit =
  VictimID :: string
  Damage :: int

text \<open>
  A decoded frame. \<open>EventOther\<close> stands for a frame that fails to decode or whose type
  is neither \<open>player_update\<close> nor \<open>player_hit\<close>: the listener skips it.
\<close>

datatype Event = EventPlayerUpdate PlayerUpdate | EventPlayerHit PlayerHit | EventOther

text \<open>
  \<open>conn\<close> holds the frames written to the connection, oldest first. The mutex is not
  modelled: every operation below runs with the lock held.
\<close>

record Game =
  player :: Player
  players :: "string \<rightharpoonup> Player"
  obstacles :: "Obstacle list"
  Objects :: "Object list"
  conn :: "Event list"

definition circleRectCollision :: "real \<Rightarrow> real \<Rightarrow> real \<Rightarrow> Obstacle \<Rightarrow> bool" where
  "circleRectCollision cx cy radius rect =
     (let closestX = max (OX rect) (min cx (OX rect + Width rect));
          closestY = max (OY rect) (min cy (OY rect + Height rect));
          dx = cx - closestX;
          dy = cy - closestY
      in dx * dx + dy * dy < radius * radius)"

fun collidesWithObstacles :: "real \<Rightarrow> real \<Rightarrow> real \<Rightarrow> Obstacle list \<Rightarrow> bool" where
  "collidesWithObstacles x y radius [] = False"
| "collidesWithObstacles x y radius (obstacle # rest) =
     (if circleRectCollision x y radius obstacle then True
      else collidesWithObstacles x y radius rest)"

subsection \<open>Visibility: castRays\<close>

text \<open>Reading a slice at an index panics out of range.\<close>

definition index :: "'a list \<Rightarrow> nat \<Rightarrow> fault + 'a" where
  "index s i = (if i < length s then Inr (s ! i) else Inl IndexOutOfRange)"

definition andThen :: "fault + 'a \<Rightarrow> ('a \<Rightarrow> fault + 'b) \<Rightarrow> fault + 'b" where
  "andThen r f = (case r of Inl e \<Rightarrow> Inl e | Inr v \<Rightarrow> f v)"

text \<open>
  \<open>sort.Slice\<close> with the comparison \<open>lt\<close>. It is not stable; the insertion sort
  fixes one of the orders it may produce.
\<close>

fun insertBy :: "('a \<Rightarrow> 'a \<Rightarrow> bool) \<Rightarrow> 'a \<Rightarrow> 'a list \<Rightarrow> 'a list" where
  "insertBy lt x [] = [x]"
| "insertBy lt x (y # ys) = (if lt y x then y # insertBy lt x ys else x # y # ys)"

definition sortSlice :: "('a \<Rightarrow> 'a \<Rightarrow> bool) \<Rightarrow> 'a list \<Rightarrow> 'a list" where
  "sortSlice lt s = foldr (insertBy lt) s []"

definition rayLength :: float64 where
  "rayLength = Hypot (Float 1600) (Float 900)"

text \<open>The intersections of one probe ray with the walls of one object, in wall order.\<close>

fun wallHits :: "Line \<Rightarrow> Line list \<Rightarrow> (float64 \<times> float64) list" where
  "wallHits ray [] = []"
| "wallHits ray (wall # walls) =
     (case Intersection ray wall of
        (px, py, ok) \<Rightarrow> if ok then (px, py) # wallHits ray walls else wallHits ray walls)"

fun hitPoints :: "Line \<Rightarrow> Object list \<Rightarrow> (float64 \<times> float64) list" where
  "hitPoints ray [] = []"
| "hitPoints ray (obj # objs) = wallHits ray (Walls obj) @ hitPoints ray objs"

text \<open>
  The search for the point closest to the start of the ray; the arguments after the list
  are \<open>i\<close>, \<open>min\<close> and \<open>minI\<close>.
\<close>

fun closestPoint ::
  "float64 \<Rightarrow> float64 \<Rightarrow> (float64 \<times> float64) list \<Rightarrow> nat \<Rightarrow> float64 \<Rightarrow> nat \<Rightarrow> nat" where
  "closestPoint cx cy [] i mn minI = minI"
| "closestPoint cx cy (p # ps) i mn minI =
     (let d2 = (cx - fst p) * (cx - fst p) + (cy - snd p) * (cy - snd p)
      in if d2 < mn
         then closestPoint cx cy ps (Suc i) d2 i
         else closestPoint cx cy ps (Suc i) mn minI)"

text \<open>One probe: the result segments it appends to \<open>rays\<close> (none or one).\<close>

definition castProbe :: "float64 \<Rightarrow> float64 \<Rightarrow> Object list \<Rightarrow> Line \<Rightarrow> fault + Line list" where
  "castProbe cx cy objects ray =
     (let points = hitPoints ray objects;
          minI = closestPoint cx cy points 0 PosInf 0
      in if minI < length points
         then andThen (index points minI)
                (\<lambda>q. Inr [\<lparr>X1 = cx, Y1 = cy, X2 = fst q, Y2 = snd q\<rparr>])
         else Inr [])"

fun castOffsets ::
  "float64 \<Rightarrow> float64 \<Rightarrow> Object list \<Rightarrow> float64 \<Rightarrow> float64 list \<Rightarrow> fault + Line list" where
  "castOffsets cx cy objects angle [] = Inr []"
| "castOffsets cx cy objects angle (offset # offsets) =
     andThen (castProbe cx cy objects (NewRay cx cy rayLength (angle + offset)))
       (\<lambda>r. andThen (castOffsets cx cy objects angle offsets) (\<lambda>rs. Inr (r @ rs)))"

text \<open>The two offsets are the binary64 values of the constants \<open>-0.001\<close> and \<open>0.001\<close>.\<close>

fun castPoints ::
  "float64 \<Rightarrow> float64 \<Rightarrow> Object list \<Rightarrow> (float64 \<times> float64) list \<Rightarrow> fault + Line list" where
  "castPoints cx cy objects [] = Inr []"
| "castPoints cx cy objects (p # ps) =
     (let l = \<lparr>X1 = cx, Y1 = cy, X2 = fst p, Y2 = snd p\<rparr>;
          angle = Angle_of l
      in andThen (castOffsets cx cy objects angle [round64 (- 0.001), round64 0.001])
           (\<lambda>r. andThen (castPoints cx cy objects ps) (\<lambda>rs. Inr (r @ rs))))"

fun castObjects ::
  "float64 \<Rightarrow> float64 \<Rightarrow> Object list \<Rightarrow> Object list \<Rightarrow> fault + Line list" where
  "castObjects cx cy objects [] = Inr []"
| "castObjects cx cy objects (obj # objs) =
     andThen (Points obj)
       (\<lambda>ps. andThen (castPoints cx cy objects ps)
          (\<lambda>r. andThen (castObjects cx cy objects objs) (\<lambda>rs. Inr (r @ rs))))"

definition castRays :: "float64 \<Rightarrow> float64 \<Rightarrow> Object list \<Rightarrow> fault + Line list" where
  "castRays cx cy objects =
     andThen (castObjects cx cy objects objects)
       (\<lambda>rays. Inr (sortSlice (\<lambda>a b. Angle_of a < Angle_of b) rays))"

text \<open>
  The probe rays of \<open>castRays\<close> in the order of its loops, two for every vertex of every
  object, and what one probe adds to \<open>rays\<close>.
\<close>

definition probesOf :: "float64 \<Rightarrow> float64 \<Rightarrow> (float64 \<times> float64) list \<Rightarrow> Line list" where
  "probesOf cx cy ps =
     concat (map (\<lambda>p. map (\<lambda>offset. NewRay cx cy rayLength
                                     (Angle_of \<lparr>X1 = cx, Y1 = cy, X2 = fst p, Y2 = snd p\<rparr> + offset))
                        [round64 (- 0.001), round64 0.001]) ps)"

definition probes :: "float64 \<Rightarrow> float64 \<Rightarrow> Object list \<Rightarrow> Line list" where
  "probes cx cy objects =
     concat (map (\<lambda>obj. case Points obj of Inl e \<Rightarrow> [] | Inr ps \<Rightarrow> probesOf cx cy ps) objects)"

definition probeResult :: "float64 \<Rightarrow> float64 \<Rightarrow> Object list \<Rightarrow> Line \<Rightarrow> Line list" where
  "probeResult cx cy objects ray =
     (case castProbe cx cy objects ray of Inl e \<Rightarrow> [] | Inr rs \<Rightarrow> rs)"

subsection \<open>Hit detection: checkBulletCollisions\<close>

definition distance :: "float64 \<Rightarrow> float64 \<Rightarrow> float64 \<Rightarrow> float64 \<Rightarrow> float64" where
  "distance x1 y1 x2 y2 = Hypot (x2 - x1) (y2 - y1)"

definition sendEvent :: "Event \<Rightarrow> Game \<Rightarrow> Game" where
  "sendEvent ev g = g\<lparr>conn := conn g @ [ev]\<rparr>"

text \<open>The key of the comparison passed to \<open>sort.Slice\<close>.\<close>

definition midpointDistance :: "Bullet \<Rightarrow> Line \<Rightarrow> float64" where
  "midpointDistance bullet l =
     distance ((X2 l + X1 l) / Float 2) ((Y2 l + Y1 l) / Float 2)
       (round64 (BX bullet)) (round64 (BY bullet))"

text \<open>The local slice \<open>hitBoxLines\<close> after \<open>sort.Slice\<close>.\<close>

definition hitBoxLines :: "Player \<Rightarrow> Bullet \<Rightarrow> Line list" where
  "hitBoxLines otherPlayer bullet =
     sortSlice (\<lambda>a b. midpointDistance bullet a < midpointDistance bullet b)
       (Walls (HitBox otherPlayer))"

text \<open>
  The loop \<open>for _, l := range otherPlayer.HitBox().Walls\<close> up to its \<open>break\<close>: the
  first wall, in the order of the slice that \<open>HitBox()\<close> builds anew, that the bullet's
  line intersects. The sorted slice \<open>hitBoxLines\<close> is not read.
\<close>

definition firstContact :: "Player \<Rightarrow> Bullet \<Rightarrow> Line option" where
  "firstContact otherPlayer bullet =
     find (\<lambda>l. intersects l (Bullet_Line bullet)) (Walls (HitBox otherPlayer))"

text \<open>
  The bullet loop for one target, \<open>for i := len(g.player.Bullets) - 1; i >= 0; i--\<close>
  (first argument \<open>i + 1\<close>), on the target's record, the local player's bullets and the
  connection.
\<close>

fun bulletLoop :: "nat \<Rightarrow> Player \<times> Bullet list \<times> Event list \<Rightarrow> Player \<times> Bullet list \<times> Event list" where
  "bulletLoop 0 s = s"
| "bulletLoop (Suc i) (otherPlayer, bullets, out) =
     (let bullet = bullets ! i in
      case firstContact otherPlayer bullet of
        None \<Rightarrow> bulletLoop i (otherPlayer, bullets, out)
      | Some l \<Rightarrow>
          let h = Health otherPlayer - 50;
              hit = otherPlayer\<lparr>Health := (if h < 0 then 0 else h)\<rparr>
          in bulletLoop i
               (hit,
                removeAt i bullets,
                out @ [EventPlayerHit \<lparr>VictimID = ID hit, Damage = 20\<rparr>]))"

text \<open>The body of the outer loop for the entry of \<open>g.players\<close> with key \<open>k\<close>.\<close>

definition checkTarget :: "string \<Rightarrow> Game \<Rightarrow> Game" where
  "checkTarget k g =
     (case players g k of
        None \<Rightarrow> g
      | Some otherPlayer \<Rightarrow>
          if Health otherPlayer \<le> 0 \<or> ID otherPlayer = ID (player g) then g
          else
            case bulletLoop (length (Bullets (player g)))
                   (otherPlayer, Bullets (player g), conn g) of
              (hit, bullets, out) \<Rightarrow>
                g\<lparr>player := (player g)\<lparr>Bullets := bullets\<rparr>,
                  players := (players g)(k \<mapsto> hit),
                  conn := out\<rparr>)"

text \<open>
  Go ranges over a map in an order of its own choosing: the first argument is the order
  in which this pass visits the keys.
\<close>

fun checkBulletCollisions :: "string list \<Rightarrow> Game \<Rightarrow> Game" where
  "checkBulletCollisions [] g = g"
| "checkBulletCollisions (k # ks) g = checkBulletCollisions ks (checkTarget k g)"

subsection \<open>The tick and the listener\<close>

definition sendPlayerUpdate :: "Game \<Rightarrow> Game" where
  "sendPlayerUpdate g =
     sendEvent
       (EventPlayerUpdate
          \<lparr>UID = ID (player g), UX = X (player g), UY = Y (player g),
           UAngle = Angle (player g), UHealth = Health (player g),
           UBullets = Bullets (player g)\<rparr>) g"

definition Game_Update :: "Input \<Rightarrow> string list \<Rightarrow> Game \<Rightarrow> Game" where
  "Game_Update inp visit g =
     (let collides = collidesWithObstacles (X (player g)) (Y (player g)) 10 (obstacles g);
          g1 = g\<lparr>player := Player_Update inp collides (player g)\<rparr>;
          g2 = checkBulletCollisions visit g1
      in sendPlayerUpdate g2)"

text \<open>The merge of one received frame, the body of the loop of \<open>listenForUpdates\<close>.\<close>

definition mergeEvent :: "Image \<Rightarrow> Event \<Rightarrow> Game \<Rightarrow> Game" where
  "mergeEvent PlayerSprite event g =
     (case event of
        EventPlayerUpdate update \<Rightarrow>
          if UID update = ID (player g) then g
          else
            let p = (case players g (UID update) of
                       None \<Rightarrow> NewPlayer PlayerSprite (UID update) (UX update) (UY update)
                     | Some q \<Rightarrow> q)
            in g\<lparr>players := (players g)(UID update \<mapsto>
                   p\<lparr>X := UX update, Y := UY update, Angle := UAngle update,
                     Health := UHealth update, Bullets := UBullets update\<rparr>)\<rparr>
      | EventPlayerHit hit \<Rightarrow>
          let g1 = (case players g (VictimID hit) of
                      None \<Rightarrow> g
                    | Some q \<Rightarrow>
                        let h = Health q - Damage hit
                        in g\<lparr>players := (players g)(VictimID hit \<mapsto>
                               q\<lparr>Health := (if h < 0 then 0 else h)\<rparr>)\<rparr>)
          in if VictimID hit = ID (player g1)
             then g1\<lparr>player := (player g1)\<lparr>Health := Health (player g1) - Damage hit\<rparr>\<rparr>
             else g1
      | EventOther \<Rightarrow> g)"

text \<open>The frames read until the connection is lost, merged in arrival order.\<close>

fun listenForUpdates :: "Image \<Rightarrow> Event list \<Rightarrow> Game \<Rightarrow> Game" where
  "listenForUpdates PlayerSprite [] g = g"
| "listenForUpdates PlayerSprite (event # events) g =
     listenForUpdates PlayerSprite events (mergeEvent PlayerSprite event g)"

section \<open>Scenarios\<close>

text \<open>
  Concrete inputs for the evaluations below. A sprite of 80 by 80 pixels gives a hit box of
  20 by 20, here centred at \<open>(100, 100)\<close>: its walls are, in the order of \<open>Rect\<close>,
  the edges \<open>x = 90\<close>, \<open>y = 110\<close>, \<open>x = 110\<close> and \<open>y = 90\<close>.
\<close>

definition sprite80 :: Image where
  "sprite80 = \<lparr>Dx = 80, Dy = 80\<rparr>"

definition target :: "int \<Rightarrow> Player" where
  "target h = (NewPlayer sprite80 ''111'' 100 100)\<lparr>Health := h\<rparr>"

text \<open>
  A bullet of player \<open>A\<close>, fired from \<open>(230, 100)\<close> towards decreasing \<open>x\<close> and
  advanced once: its line runs from \<open>(150, 100)\<close> to \<open>(70, 100)\<close>, through the hit box.
\<close>

definition shot :: Bullet where
  "shot = \<lparr>OwnerID = ''A'', BX = 150, BY = 100, EndX = 70, EndY = 100,
           Direction = pi, Velocity = 80\<rparr>"

definition arena :: "int \<Rightarrow> Game" where
  "arena h =
     \<lparr>player = (NewPlayer sprite80 ''A'' 230 100)\<lparr>Bullets := [shot]\<rparr>,
      players = [''111'' \<mapsto> target h],
      obstacles = [], Objects = [], conn = []\<rparr>"

definition leftEdge :: Line where
  "leftEdge = \<lparr>X1 = Float 90, Y1 = Float 90, X2 = Float 90, Y2 = Float 110\<rparr>"

definition rightEdge :: Line where
  "rightEdge = \<lparr>X1 = Float 110, Y1 = Float 110, X2 = Float 110, Y2 = Float 90\<rparr>"

text \<open>The local player \<open>A\<close> alone, at full health, and a hit on \<open>A\<close> as a peer sends it.\<close>

definition lobby :: Game where
  "lobby = \<lparr>player = NewPlayer sprite80 ''A'' 800 450, players = Map.empty,
            obstacles = [], Objects = [], conn = []\<rparr>"

definition hitA :: Event where
  "hitA = EventPlayerHit \<lparr>VictimID = ''A'', Damage = 20\<rparr>"

text \<open>
  The local player half a unit outside the reach of the first obstacle of
  \<open>NewObstacles\<close>, and the input of a tick with only the key D pressed.
\<close>

definition wall :: Obstacle where
  "wall = \<lparr>OX = 200, OY = 150, Width = 100, Height = 200\<rparr>"

definition corridor :: Game where
  "corridor = \<lparr>player = NewPlayer sprite80 ''A'' 189.5 200, players = Map.empty,
               obstacles = [wall], Objects = [], conn = []\<rparr>"

definition pressD :: Input where
  "pressD = \<lparr>KeyShiftLeft = False, KeyW = False, KeyS = False, KeyA = False, KeyD = True,
             CursorPosition = (0, 0), MouseButtonLeft = False, now = 0, randFloat = 0\<rparr>"

text \<open>A tick with sprint, two movement keys and the fire button held, one second in.\<close>

definition pressAll :: Input where
  "pressAll = \<lparr>KeyShiftLeft = True, KeyW = True, KeyS = False, KeyA = False, KeyD = True,
               CursorPosition = (10, 20), MouseButtonLeft = True, now = 1000000000,
               randFloat = 0\<rparr>"

text \<open>
  A game whose map of remote players holds a downed player and a record with the local
  player's own identity.
\<close>

definition duel :: Game where
  "duel = \<lparr>player = (NewPlayer sprite80 ''A'' 230 100)\<lparr>Bullets := [shot]\<rparr>,
           players = [''111'' \<mapsto> target 0, ''A'' \<mapsto> (target 100)\<lparr>ID := ''A''\<rparr>],
           obstacles = [], Objects = [], conn = []\<rparr>"

text \<open>A hit and an update for the remote player \<open>111\<close>.\<close>

definition hit111 :: PlayerHit where
  "hit111 = \<lparr>VictimID = ''111'', Damage = 20\<rparr>"

definition update111 :: PlayerUpdate where
  "update111 = \<lparr>UID = ''111'', UX = 120, UY = 80, UAngle = 1, UHealth = 70, UBullets = [shot]\<rparr>"



text \<open>Two segments whose products overflow.\<close>

definition huge :: real where
  "huge = 2 ^ 600"

definition overflowA :: Line where
  "overflowA = \<lparr>X1 = Float 0, Y1 = Float 0, X2 = Float huge, Y2 = Float huge\<rparr>"

definition overflowB :: Line where
  "overflowB = \<lparr>X1 = Float 0, Y1 = Float huge, X2 = Float huge, Y2 = Float 0\<rparr>"






text \<open>An object of a single wall, and two probe rays.\<close>

definition shortRay :: Line where
  "shortRay = \<lparr>X1 = Float 0, Y1 = Float 0, X2 = Float 1, Y2 = Float 0\<rparr>"

definition crossRay :: Line where
  "crossRay = \<lparr>X1 = Float 0, Y1 = Float 7, X2 = Float 10, Y2 = Float 7\<rparr>"

definition post9 :: Object where
  "post9 = \<lparr>Walls = [\<lparr>X1 = Float 5, Y1 = Float 5, X2 = Float 5, Y2 = Float 9\<rparr>]\<rparr>"

section \<open>Evaluating binary64\<close>

text \<open>The operators on \<^typ>\<open>float64\<close>, unfolded to the operations they stand for.\<close>

lemmas float64_ops =
  zero_float64_def one_float64_def plus_float64_def minus_float64_def uminus_float64_def
  times_float64_def divide_float64_def less_float64_def less_eq_float64_def fsub_def

lemma floor_log2_eq:
  assumes "2 powi e \<le> \<bar>x\<bar>" and "\<bar>x\<bar> < 2 powi (e + 1)"
  shows "\<lfloor>log 2 \<bar>x\<bar>\<rfloor> = e"
proof -
  have pos: "0 < \<bar>x\<bar>"
    using assms(1) by (smt (verit) zero_less_power_int)
  have p: "(2::real) powr (real_of_int k) = 2 powi k" for k
    by (simp add: powr_real_of_int')
  have "(2::real) powr (real_of_int e) \<le> \<bar>x\<bar>"
    using assms(1) by (simp only: p)
  moreover have "\<bar>x\<bar> < (2::real) powr (real_of_int (e + 1))"
    using assms(2) by (simp only: p)
  ultimately show ?thesis
    using pos floor_log_eq_powr_iff [of "\<bar>x\<bar>" 2 e] by simp
qed

lemma floor_log2_bounds:
  assumes "x \<noteq> 0"
  shows "2 powi \<lfloor>log 2 \<bar>x\<bar>\<rfloor> \<le> \<bar>x\<bar> \<and> \<bar>x\<bar> < 2 powi (\<lfloor>log 2 \<bar>x\<bar>\<rfloor> + 1)"
proof -
  have pos: "0 < \<bar>x\<bar>"
    using assms by simp
  have p: "(2::real) powr (real_of_int k) = 2 powi k" for k
    by (simp add: powr_real_of_int')
  have "(2::real) powr (real_of_int \<lfloor>log 2 \<bar>x\<bar>\<rfloor>) \<le> \<bar>x\<bar>
        \<and> \<bar>x\<bar> < (2::real) powr (real_of_int (\<lfloor>log 2 \<bar>x\<bar>\<rfloor> + 1))"
    using pos floor_log_eq_powr_iff [of "\<bar>x\<bar>" 2 "\<lfloor>log 2 \<bar>x\<bar>\<rfloor>"] by simp
  then show ?thesis
    by (simp only: p)
qed

lemma roundEven_int [simp]: "roundEven (of_int n) = n"
  by (simp add: roundEven_def)

lemma roundEven_bounds: "\<lfloor>z\<rfloor> \<le> roundEven z \<and> roundEven z \<le> \<lceil>z\<rceil>"
proof -
  have "z \<noteq> of_int \<lfloor>z\<rfloor> \<Longrightarrow> \<lfloor>z\<rfloor> + 1 \<le> \<lceil>z\<rceil>"
    by (metis ceiling_altdef order_refl of_int_floor_cancel)
  then show ?thesis
    by (auto simp: roundEven_def Let_def)
qed

lemma roundEven_abs_le:
  assumes "\<bar>z\<bar> \<le> of_int n"
  shows "\<bar>roundEven z\<bar> \<le> n"
proof -
  have "- n \<le> \<lfloor>z\<rfloor>"
    using assms by (simp add: le_floor_iff abs_le_iff)
  moreover have "\<lceil>z\<rceil> \<le> n"
    using assms by (simp add: ceiling_le_iff abs_le_iff)
  ultimately show ?thesis
    using roundEven_bounds [of z] by linarith
qed

lemma round64_at:
  assumes lo: "2 powi e \<le> \<bar>x\<bar>" and hi: "\<bar>x\<bar> < 2 powi (e + 1)"
    and e: "- 1022 \<le> e" "e \<le> 1022"
  shows "round64 x = Float (of_int (roundEven (x / 2 powi (e - 52))) * 2 powi (e - 52))"
proof -
  have nz: "x \<noteq> 0"
    using lo by (smt (verit) zero_less_power_int)
  have q: "quantum x = e - 52"
    using floor_log2_eq [OF lo hi] e by (simp add: quantum_def)
  let ?u = "(2::real) powi (e - 52)"
  have upos: "0 < ?u" by simp
  have "\<bar>x / ?u\<bar> = \<bar>x\<bar> / ?u"
    using upos by (simp add: abs_divide)
  also have "\<dots> \<le> 2 powi (e + 1) / ?u"
    using hi upos by (simp add: divide_right_mono)
  also have "\<dots> = 2 powi 53"
    using power_int_diff [of "2::real" "e + 1" "e - 52"] by simp
  finally have "\<bar>x / ?u\<bar> \<le> of_int (2 ^ 53)"
    by simp
  then have r: "\<bar>roundEven (x / ?u)\<bar> \<le> 2 ^ 53"
    by (rule roundEven_abs_le)
  have "\<bar>of_int (roundEven (x / ?u)) * ?u\<bar> = of_int \<bar>roundEven (x / ?u)\<bar> * ?u"
    using upos by (simp add: abs_mult)
  also have "\<dots> \<le> 2 powi 53 * ?u"
  proof -
    have "(of_int \<bar>roundEven (x / ?u)\<bar> :: real) \<le> of_int (2 ^ 53)"
      using r by (simp only: of_int_le_iff)
    then show ?thesis
      using upos by (simp add: mult_right_mono)
  qed
  also have "\<dots> = 2 powi (e + 1)"
    using power_int_add [of "2::real" 53 "e - 52"] by (simp add: add.commute)
  also have "\<dots> \<le> 2 powi 1023"
    using e by (intro power_int_increasing) simp_all
  also have "\<dots> < 2 ^ 1024"
    by simp
  finally have fin: "\<bar>of_int (roundEven (x / ?u)) * ?u\<bar> < 2 ^ 1024" .
  show ?thesis
    using nz q fin by (simp add: round64_def Let_def abs_less_iff not_le)
qed

text \<open>An integer below \<open>2 ^ 53\<close> in magnitude is a binary64 value.\<close>

lemma round64_int:
  assumes "\<bar>n\<bar> < 2 ^ 53"
  shows "round64 (of_int n) = Float (of_int n)"
proof (cases "n = 0")
  case True
  then show ?thesis by (simp add: round64_def)
next
  case False
  define x :: real where "x = of_int n"
  define e where "e = \<lfloor>log 2 \<bar>x\<bar>\<rfloor>"
  have nz: "x \<noteq> 0"
    using False by (simp add: x_def)
  have b: "2 powi e \<le> \<bar>x\<bar>" "\<bar>x\<bar> < 2 powi (e + 1)"
    using floor_log2_bounds [OF nz] by (simp_all add: e_def)
  have x1: "1 \<le> \<bar>x\<bar>"
    using False by (simp add: x_def)
  have x53: "\<bar>x\<bar> < 2 powi 53"
  proof -
    have "(of_int \<bar>n\<bar> :: real) < of_int (2 ^ 53)"
      using assms by (simp only: of_int_less_iff)
    then show ?thesis by (simp add: x_def)
  qed
  have e0: "0 \<le> e"
  proof (rule ccontr)
    assume "\<not> 0 \<le> e"
    then have "e + 1 \<le> 0" by simp
    then have "(2::real) powi (e + 1) \<le> 2 powi 0"
      by (intro power_int_increasing) simp_all
    with b(2) x1 show False by simp
  qed
  have e52: "e \<le> 52"
  proof (rule ccontr)
    assume "\<not> e \<le> 52"
    then have "53 \<le> e" by simp
    then have "(2::real) powi 53 \<le> 2 powi e"
      by (intro power_int_increasing) simp_all
    with b(1) x53 show False by simp
  qed
  obtain k :: nat where k: "52 - e = int k"
    using e52 by (metis diff_ge_0_iff_ge zero_le_imp_eq_int)
  have u: "(2::real) powi (e - 52) = inverse (2 ^ k)"
  proof -
    have "e - 52 = - int k" using k by simp
    then show ?thesis by (simp add: power_int_minus)
  qed
  have "x / 2 powi (e - 52) = of_int (n * 2 ^ k)"
    by (simp add: u x_def field_simps)
  then have "roundEven (x / 2 powi (e - 52)) = n * 2 ^ k"
    by (simp only: roundEven_int)
  then have "of_int (roundEven (x / 2 powi (e - 52))) * 2 powi (e - 52) = x"
    by (simp add: u x_def)
  moreover have "round64 x = Float (of_int (roundEven (x / 2 powi (e - 52))) * 2 powi (e - 52))"
    using b e0 e52 by (intro round64_at) simp_all
  ultimately show ?thesis
    by (simp add: x_def)
qed

lemma round64_numeral [simp]:
  "numeral k < (2 :: int) ^ 53 \<Longrightarrow> round64 (numeral k) = Float (numeral k)"
  using round64_int [of "numeral k"] by simp

lemma round64_neg_numeral [simp]:
  "numeral k < (2 :: int) ^ 53 \<Longrightarrow> round64 (- numeral k) = Float (- numeral k)"
  using round64_int [of "- numeral k"] by simp

lemma round64_0 [simp]: "round64 0 = Float 0"
  by (simp add: round64_def)

lemma round64_1 [simp]: "round64 1 = Float 1"
  using round64_int [of 1] by simp

lemma round64_neg_1 [simp]: "round64 (- 1) = Float (- 1)"
  using round64_int [of "- 1"] by simp

lemma round64_half [simp]: "round64 (1 / 2) = Float (1 / 2)"
  by (subst round64_at [where e = "- 1"]) (simp_all add: roundEven_def)

lemma round64_three_quarters [simp]: "round64 (3 / 4) = Float (3 / 4)"
  by (subst round64_at [where e = "- 1"]) (simp_all add: roundEven_def)

lemma round64_quarter [simp]: "round64 (1 / 4) = Float (1 / 4)"
  by (subst round64_at [where e = "- 2"]) (simp_all add: roundEven_def)

lemma roundEven_uminus: "roundEven (- z) = - roundEven z"
proof (cases "z = of_int \<lfloor>z\<rfloor>")
  case True
  then obtain k where "z = of_int k" ..
  then show ?thesis
    by (simp add: roundEven_int [of "- k", simplified])
next
  case False
  then have f: "\<lfloor>- z\<rfloor> = - \<lfloor>z\<rfloor> - 1"
    by (simp add: floor_minus ceiling_altdef)
  have lt: "of_int \<lfloor>z\<rfloor> < z"
    using False by (metis floor_less_cancel less_eq_real_def of_int_floor_le)
  show ?thesis
    using lt by (auto simp: roundEven_def f Let_def)
qed

lemma round64_uminus: "round64 (- x) = fneg (round64 x)"
proof (cases "x = 0")
  case True
  then show ?thesis by (simp add: round64_def)
next
  case False
  define y :: real where "y = of_int (roundEven (x / 2 powi quantum x)) * 2 powi quantum x"
  have q: "quantum (- x) = quantum x"
    by (simp add: quantum_def)
  have "roundEven (- x / 2 powi quantum x) = - roundEven (x / 2 powi quantum x)"
    using roundEven_uminus [of "x / 2 powi quantum x"] by simp
  then have y': "of_int (roundEven (- x / 2 powi quantum x)) * 2 powi quantum x = - y"
    by (simp add: y_def)
  have a: "round64 (- x) =
             (if 2 ^ 1024 \<le> - y then PosInf else if - y \<le> - (2 ^ 1024) then NegInf
              else Float (- y))"
    using False by (simp only: round64_def q Let_def y') simp
  have b: "round64 x =
             (if 2 ^ 1024 \<le> y then PosInf else if y \<le> - (2 ^ 1024) then NegInf else Float y)"
    using False by (simp only: round64_def Let_def y_def) simp
  have c: "\<not> (2 ^ 1024 \<le> y \<and> y \<le> - (2 ^ 1024))"
    by (smt (verit) zero_less_power)
  show ?thesis
    unfolding a b using c by (cases "2 ^ 1024 \<le> y"; cases "y \<le> - (2 ^ 1024)") simp_all
qed

lemma round64_pow2:
  "round64 (2 ^ n) = (if n < 1024 then Float (2 ^ n) else PosInf)"
proof -
  have l: "\<lfloor>log 2 \<bar>(2::real) ^ n\<bar>\<rfloor> = int n"
    by (intro floor_log2_eq) (simp_all add: power_int_add)
  have q: "quantum (2 ^ n) = int n - 52"
    using l by (simp add: quantum_def)
  have d: "(2::real) ^ n / 2 powi (int n - 52) = of_int (2 ^ 52)"
    using power_int_diff [of "2::real" "int n" "int n - 52"] by simp
  have r: "roundEven ((2::real) ^ n / 2 powi (int n - 52)) = 2 ^ 52"
    by (simp only: d roundEven_int)
  have y: "of_int (2 ^ 52) * (2::real) powi (int n - 52) = 2 ^ n"
    using d by (simp add: field_simps)
  have c: "((2::real) ^ 1024 \<le> 2 ^ n) = (1024 \<le> n)"
    by (simp only: power_increasing_iff)
  have neg: "\<not> (2::real) ^ n \<le> - (2 ^ 1024)"
    by (smt (verit) zero_less_power)
  show ?thesis
    using c y neg by (simp add: round64_def q r Let_def not_le not_less)
qed

lemma round64_ge:
  assumes lo: "2 powi e \<le> x" and hi: "x < 2 powi (e + 1)" and e: "- 1022 \<le> e" "e \<le> 1022"
  shows "\<exists>r. round64 x = Float r \<and> x - 2 powi (e - 52) < r"
proof -
  have xpos: "0 < x"
    using lo by (smt (verit) zero_less_power_int)
  let ?u = "(2::real) powi (e - 52)"
  let ?r = "of_int (roundEven (x / ?u)) * ?u"
  have upos: "0 < ?u" by simp
  have "round64 x = Float ?r"
    using lo hi e xpos by (intro round64_at) simp_all
  moreover have "x - ?u < ?r"
  proof -
    have "x / ?u - 1 < of_int \<lfloor>x / ?u\<rfloor>"
      by linarith
    also have "\<dots> \<le> of_int (roundEven (x / ?u))"
      using roundEven_bounds [of "x / ?u"] by simp
    finally have "(x / ?u - 1) * ?u < of_int (roundEven (x / ?u)) * ?u"
      using upos by (simp only: mult_less_cancel_right_pos)
    moreover have "(x / ?u - 1) * ?u = x - ?u"
      using upos by (simp add: left_diff_distrib)
    ultimately show ?thesis
      by simp
  qed
  ultimately show ?thesis by blast
qed

section \<open>Segment intersection\<close>







text \<open>
  After an overflow the coefficients are NaN, which is neither greater than 1 nor less than
  0: an intersection is reported, at a point that is NaN.
\<close>

lemma round64_huge:
  "round64 huge = Float huge" "round64 (- huge) = Float (- huge)"
  "round64 (huge * huge) = PosInf" "round64 (- (huge * huge)) = NegInf"
  "huge \<noteq> 0"
proof -
  have sq: "huge * huge = 2 ^ 1200"
    by (simp add: huge_def power_add [symmetric])
  show h: "round64 huge = Float huge"
    unfolding huge_def by (simp only: round64_pow2) simp
  show "round64 (- huge) = Float (- huge)"
    by (simp only: round64_uminus h fneg.simps)
  show hh: "round64 (huge * huge) = PosInf"
    unfolding sq by (simp only: round64_pow2) simp
  show "round64 (- (huge * huge)) = NegInf"
    by (simp only: round64_uminus hh fneg.simps)
  show "huge \<noteq> 0"
    by (simp add: huge_def)
qed

lemma huge_ops:
  "Float 0 - Float huge = Float (- huge)"
  "Float huge - Float 0 = Float huge"
  "Float 0 - Float 0 = Float 0"
  "Float (- huge) * Float huge = NegInf"
  "Float (- huge) * Float (- huge) = PosInf"
  "Float 0 * Float huge = Float 0"
  "Float (- huge) * Float 0 = Float 0"
  by (simp_all add: float64_ops round64_huge)

lemma overflow_denom: "denom overflowA overflowB = NegInf"
  by (simp add: denom_def overflowA_def overflowB_def huge_ops) (simp add: float64_ops)

lemma overflow_tNum: "tNum overflowA overflowB = NegInf"
  by (simp add: tNum_def overflowA_def overflowB_def huge_ops) (simp add: float64_ops)

lemma overflow_uNum: "uNum overflowA overflowB = NegInf"
  by (simp add: uNum_def overflowA_def overflowB_def huge_ops) (simp add: float64_ops)

lemma Intersection_overflow:
  "tParam overflowA overflowB = NaN
   \<and> uParam overflowA overflowB = NaN
   \<and> Intersection overflowA overflowB = (NaN, NaN, True)"
  by (simp add: Intersection_def tParam_def uParam_def overflow_denom overflow_tNum
      overflow_uNum Let_def) (simp add: float64_ops feq_def overflowA_def)






section \<open>Vertex extraction\<close>

lemma Points_Rect:
  "x \<noteq> NaN \<or> y \<noteq> NaN \<Longrightarrow>
   Points \<lparr>Walls = Rect x y w h\<rparr> = Inr [(x, y + h), (x + w, y + h), (x + w, y), (x, y)]"
  by (auto simp: Points_def Rect_def feq_def)

lemma Points_no_walls: "Points \<lparr>Walls = []\<rparr> = Inl IndexOutOfRange"
  by (simp add: Points_def)

text \<open>
  C7. The vertex sequence is the second endpoint of every segment, followed by the first
  segment's start point when it differs from the last extracted vertex. For the open chain
  made of the single horizontal segment from \<open>(0, 0)\<close> to \<open>(10, 0)\<close> the start point
  \<open>(0, 0)\<close> differs from the last vertex \<open>(10, 0)\<close>, yet \<open>Points\<close> does not add it:
  the source compares with \<open>&&\<close>, so it adds the start point only when both
  coordinates differ.
\<close>

theorem Points_open_axis_aligned:
  "Points \<lparr>Walls = [\<lparr>X1 = Float 0, Y1 = Float 0, X2 = Float 10, Y2 = Float 0\<rparr>]\<rparr>
     = Inr [(Float 10, Float 0)]
   \<and> (Float 0, Float 0) \<noteq> (Float 10, Float 0)"
  by (simp add: Points_def feq_def)

section \<open>Hit detection\<close>

lemma HitBox_target:
  "Walls (HitBox (target h)) =
     [leftEdge, \<lparr>X1 = Float 90, Y1 = Float 110, X2 = Float 110, Y2 = Float 110\<rparr>, rightEdge,
      \<lparr>X1 = Float 110, Y1 = Float 90, X2 = Float 90, Y2 = Float 90\<rparr>]"
  by (simp add: HitBox_def target_def NewPlayer_def SpriteBounds_def sprite80_def Rect_def
      leftEdge_def rightEdge_def float64_ops)

lemma Bullet_Line_shot:
  "Bullet_Line shot = \<lparr>X1 = Float 150, Y1 = Float 100, X2 = Float 70, Y2 = Float 100\<rparr>"
  by (simp add: Bullet_Line_def shot_def)

lemma Intersection_left:
  "Intersection leftEdge (Bullet_Line shot) = (Float 90, Float 100, True)"
  by (simp add: Intersection_def denom_def tNum_def uNum_def leftEdge_def
      Bullet_Line_shot Let_def float64_ops feq_def)

lemma intersects_left: "intersects leftEdge (Bullet_Line shot)"
  by (simp add: intersects_def Intersection_left)

lemma intersects_right: "intersects rightEdge (Bullet_Line shot)"
  by (simp add: intersects_def Intersection_def denom_def tNum_def uNum_def rightEdge_def
      Bullet_Line_shot Let_def float64_ops feq_def)

lemma firstContact_target: "firstContact (target h) shot = Some leftEdge"
  by (simp add: firstContact_def HitBox_target intersects_left)

lemma target_fields:
  "Health (target h) = h" "ID (target h) = ''111''"
  "(target h)\<lparr>Health := h'\<rparr> = target h'"
  by (simp_all add: target_def NewPlayer_def)

lemma bulletLoop_single_hit:
  assumes "firstContact p b = Some l"
  shows "bulletLoop (Suc 0) (p, [b], out) =
           (p\<lparr>Health := (if Health p - 50 < 0 then 0 else Health p - 50)\<rparr>, [],
            out @ [EventPlayerHit \<lparr>VictimID = ID p, Damage = 20\<rparr>])"
  using assms by (simp add: removeAt_def Let_def)

lemma checkTarget_arena:
  "0 < h \<Longrightarrow> checkTarget ''111'' (arena h) =
     \<lparr>player = NewPlayer sprite80 ''A'' 230 100,
      players = [''111'' \<mapsto> target (if h - 50 < 0 then 0 else h - 50)],
      obstacles = [], Objects = [],
      conn = [EventPlayerHit \<lparr>VictimID = ''111'', Damage = 20\<rparr>]\<rparr>"
  by (simp add: checkTarget_def arena_def firstContact_target removeAt_def Let_def target_fields
      NewPlayer_def)

lemma checkTarget_arena_downed: "checkTarget ''111'' (arena 0) = arena 0"
  by (simp add: checkTarget_def arena_def target_fields)

text \<open>
  C3. On a hit the target's health is decremented by the weapon's damage, the bullet is
  removed, and the \<open>PlayerHit\<close> notification carries the amount by which the health was
  decremented. In the scenario the bullet is removed and one notification is sent, but the
  target's health falls from 100 to 50 while the notification carries 20.
\<close>

theorem hit_amounts_differ:
  "map_option Health (players (checkBulletCollisions [''111''] (arena 100)) ''111'') = Some 50
   \<and> conn (checkBulletCollisions [''111''] (arena 100))
        = [EventPlayerHit \<lparr>VictimID = ''111'', Damage = 20\<rparr>]
   \<and> Bullets (player (checkBulletCollisions [''111''] (arena 100))) = []"
  by (simp add: checkTarget_arena target_fields NewPlayer_def)

lemma Hypot_0: "Hypot (Float a) (Float 0) = round64 \<bar>a\<bar>"
  by (simp add: Hypot_def)

lemma sqrt_2600: "\<exists>r. round64 (sqrt 2600) = Float r \<and> 40 < r"
proof -
  have lo: "(50::real) \<le> sqrt 2600"
    by (rule real_le_rsqrt) simp
  have hi: "sqrt 2600 < (64::real)"
    by (rule real_less_lsqrt) simp_all
  have "\<exists>r. round64 (sqrt 2600) = Float r \<and> sqrt 2600 - 2 powi (5 - 52) < r"
    using lo hi by (intro round64_ge) simp_all
  then obtain r where r: "round64 (sqrt 2600) = Float r" "sqrt 2600 - 2 powi (5 - 52) < r"
    by blast
  have "(2::real) powi (5 - 52) \<le> 1"
    by simp
  with r(2) lo have "40 < r" by linarith
  with r(1) show ?thesis by blast
qed

lemma midpointDistance_left: "midpointDistance shot leftEdge = Float 60"
  by (simp add: midpointDistance_def distance_def leftEdge_def shot_def float64_ops Hypot_0)

lemma midpointDistance_right: "midpointDistance shot rightEdge = Float 40"
  by (simp add: midpointDistance_def distance_def rightEdge_def shot_def float64_ops Hypot_0)

lemma midpointDistance_bottom:
  "midpointDistance shot \<lparr>X1 = Float 90, Y1 = Float 110, X2 = Float 110, Y2 = Float 110\<rparr>
     = round64 (sqrt 2600)"
  by (simp add: midpointDistance_def distance_def shot_def float64_ops Hypot_def)

lemma midpointDistance_top:
  "midpointDistance shot \<lparr>X1 = Float 110, Y1 = Float 90, X2 = Float 90, Y2 = Float 90\<rparr>
     = round64 (sqrt 2600)"
  by (simp add: midpointDistance_def distance_def shot_def float64_ops Hypot_def)

lemma hitBoxLines_head: "hd (hitBoxLines (target 100) shot) = rightEdge"
proof -
  obtain r where r: "round64 (sqrt 2600) = Float r" "40 < r"
    using sqrt_2600 by blast
  show ?thesis
    using r
    by (simp add: hitBoxLines_def sortSlice_def HitBox_target midpointDistance_left
        midpointDistance_right midpointDistance_bottom midpointDistance_top float64_ops)
qed

text \<open>
  C5. The four edges of the hit box are examined nearest midpoint first, and the first
  intersecting edge is the contact. In the scenario the bullet comes from the right and its
  line crosses both the edge \<open>x = 110\<close> (midpoint 40 away) and the edge \<open>x = 90\<close>
  (midpoint 60 away). The sorted slice starts with the nearer edge, but the loop ranges
  over a slice that \<open>HitBox()\<close> builds anew, in the order of \<open>Rect\<close>, and its first
  contact is the farther edge.
\<close>

theorem nearest_edge_not_first:
  "firstContact (target 100) shot = Some leftEdge
   \<and> intersects rightEdge (Bullet_Line shot)
   \<and> midpointDistance shot leftEdge = Float 60
   \<and> midpointDistance shot rightEdge = Float 40
   \<and> hd (hitBoxLines (target 100) shot) = rightEdge"
  by (simp add: firstContact_target intersects_right midpointDistance_left
      midpointDistance_right hitBoxLines_head)

subsection \<open>Targets that are skipped\<close>

text \<open>
  C4, as stated: a target at health 0 remains a candidate of the collision test, and a hit
  on it changes nothing but is a hit. In the scenario the bullet's line crosses the hit box
  of the target. With the target at health 0 the pass leaves the game as it is: the bullet
  is kept and nothing is sent. With the target at health 1 the same bullet is spent and a
  \<open>PlayerHit\<close> is sent.
\<close>

theorem downed_target_skipped:
  "Health (target 0) = 0
   \<and> firstContact (target 0) shot = Some leftEdge
   \<and> checkBulletCollisions [''111''] (arena 0) = arena 0
   \<and> Bullets (player (checkBulletCollisions [''111''] (arena 1))) = []
   \<and> conn (checkBulletCollisions [''111''] (arena 1))
        = [EventPlayerHit \<lparr>VictimID = ''111'', Damage = 20\<rparr>]"
  by (simp add: checkTarget_arena checkTarget_arena_downed firstContact_target target_fields
      NewPlayer_def)

lemma checkTarget_skip:
  assumes "players g k = Some p" and "Health p \<le> 0 \<or> ID p = ID (player g)"
  shows "checkTarget k g = g"
  using assms by (auto simp: checkTarget_def)

lemma checkTarget_player:
  "ID (player (checkTarget k g)) = ID (player g)
   \<and> Health (player (checkTarget k g)) = Health (player g)"
  by (simp add: checkTarget_def split: option.splits prod.splits)

lemma checkTarget_other:
  "k' \<noteq> k \<Longrightarrow> players (checkTarget k g) k' = players g k'"
  by (simp add: checkTarget_def split: option.splits prod.splits)

lemma checkBulletCollisions_player:
  "ID (player (checkBulletCollisions visit g)) = ID (player g)
   \<and> Health (player (checkBulletCollisions visit g)) = Health (player g)"
  by (induction visit arbitrary: g) (simp_all add: checkTarget_player)

lemma checkBulletCollisions_skipped:
  assumes "players g k = Some p" and "Health p \<le> 0 \<or> ID p = ID (player g)"
  shows "players (checkBulletCollisions visit g) k = Some p"
  using assms
proof (induction visit arbitrary: g)
  case Nil
  then show ?case by simp
next
  case (Cons k' ks)
  show ?case
  proof (cases "k' = k")
    case True
    with Cons.prems have "checkTarget k' g = g"
      by (simp add: checkTarget_skip)
    with Cons show ?thesis by simp
  next
    case False
    then have "players (checkTarget k' g) k = Some p"
      using Cons.prems(1) by (simp add: checkTarget_other)
    moreover have "Health p \<le> 0 \<or> ID p = ID (player (checkTarget k' g))"
      using Cons.prems(2) by (simp add: checkTarget_player)
    ultimately show ?thesis
      using Cons.IH by simp
  qed
qed

text \<open>
  C4, as the code has it. A target whose identity is the local player's is skipped, and
  the pass never changes the local player's health: a bullet does not damage its owner. A
  target whose health is at most 0 when the pass reaches it is skipped as well: it is not
  tested for a collision, its record stays as it is, no bullet is spent on it and no
  \<open>PlayerHit\<close> is sent for it.
\<close>

theorem skipped_targets_untouched:
  assumes "players g k = Some p" and "Health p \<le> 0 \<or> ID p = ID (player g)"
  shows "checkTarget k g = g
         \<and> players (checkBulletCollisions visit g) k = Some p
         \<and> Health (player (checkBulletCollisions visit g)) = Health (player g)"
  using assms
  by (simp add: checkTarget_skip checkBulletCollisions_skipped checkBulletCollisions_player)

text \<open>
  A pass over a downed target and over a record that carries the local player's own
  identity, with a bullet that crosses both hit boxes.
\<close>

theorem skipped_targets_untouched_witness:
  "checkTarget ''111'' duel = duel
   \<and> checkTarget ''A'' duel = duel
   \<and> players (checkBulletCollisions [''A'', ''111''] duel) ''111'' = Some (target 0)
   \<and> players (checkBulletCollisions [''A'', ''111''] duel) ''A'' = Some ((target 100)\<lparr>ID := ''A''\<rparr>)
   \<and> Health (player (checkBulletCollisions [''A'', ''111''] duel)) = MaxHealth"
  using skipped_targets_untouched [of duel "''111''" "target 0" "[''A'', ''111'']"]
    skipped_targets_untouched [of duel "''A''" "(target 100)\<lparr>ID := ''A''\<rparr>" "[''A'', ''111'']"]
  by (simp add: duel_def target_def NewPlayer_def)

section \<open>Health\<close>

lemma remote_hit_floor:
  "players (mergeEvent spr (EventPlayerHit hit) g) (VictimID hit) = Some q \<Longrightarrow> 0 \<le> Health q"
  by (auto simp: mergeEvent_def Let_def split: option.splits if_splits)

lemma mergeEvent_hitA:
  "mergeEvent spr hitA (lobby\<lparr>player := (player lobby)\<lparr>Health := h\<rparr>\<rparr>)
     = lobby\<lparr>player := (player lobby)\<lparr>Health := h - 20\<rparr>\<rparr>"
  by (simp add: mergeEvent_def hitA_def lobby_def NewPlayer_def)

text \<open>
  C2. Every operation that modifies a player's health keeps it between 0 and
  \<open>MaxHealth\<close>. The merge of a \<open>PlayerHit\<close> clamps the record of a remote victim at 0,
  but subtracts from the local player's health without a clamp: six hits of 20 on the
  local player, who starts at \<open>MaxHealth\<close>, leave a health of -20.
\<close>

theorem local_health_negative:
  "Health (player lobby) = MaxHealth
   \<and> Health (player (listenForUpdates sprite80 [hitA, hitA, hitA, hitA, hitA, hitA] lobby))
       = - 20"
proof -
  have start: "lobby = lobby\<lparr>player := (player lobby)\<lparr>Health := 100\<rparr>\<rparr>"
    by (simp add: lobby_def NewPlayer_def MaxHealth_def)
  have "listenForUpdates sprite80 [hitA, hitA, hitA, hitA, hitA, hitA]
          (lobby\<lparr>player := (player lobby)\<lparr>Health := 100\<rparr>\<rparr>)
        = lobby\<lparr>player := (player lobby)\<lparr>Health := - 20\<rparr>\<rparr>"
    by (simp add: mergeEvent_hitA)
  then show ?thesis
    using start by (simp add: lobby_def NewPlayer_def)
qed

section \<open>Movement\<close>

text \<open>
  C9. A move whose destination collides with an obstacle is reverted on that axis. In the
  scenario the player stands at \<open>x = 189.5\<close>, clear of the obstacle, and moves right by
  one: the destination \<open>x = 190.5\<close> collides, but \<open>Game.Update\<close> tests the position
  before the move, so the move is kept.
\<close>

theorem move_into_obstacle_not_reverted:
  "\<not> collidesWithObstacles 189.5 200 10 (obstacles corridor)
   \<and> collidesWithObstacles 190.5 200 10 (obstacles corridor)
   \<and> X (player corridor) = 189.5
   \<and> X (player (Game_Update pressD [] corridor)) = 190.5"
  by (simp add: corridor_def wall_def circleRectCollision_def NewPlayer_def Game_Update_def
      Player_Update_def pressD_def sendPlayerUpdate_def sendEvent_def MaxHealth_def
      PlayerSpeed_def Let_def)

text \<open>
  C10. For a player whose health is at most 0, \<open>Player.Update\<close> changes nothing, whatever
  the input: position, angle, bullets and the time of the last shot stay as they are, no
  shot is created and no bullet is advanced or removed.
\<close>

theorem downed_player_update_noop:
  "Health p \<le> 0 \<Longrightarrow> Player_Update inp hitsObstacle p = p"
  by (simp add: Player_Update_def)

text \<open>
  A downed player with a bullet in flight, under an input that makes a healthy player
  move and fire.
\<close>

theorem downed_player_update_noop_witness:
  "Health ((NewPlayer sprite80 ''A'' 230 100)\<lparr>Health := 0, Bullets := [shot]\<rparr>) \<le> 0
   \<and> Player_Update pressAll False
        ((NewPlayer sprite80 ''A'' 230 100)\<lparr>Health := 0, Bullets := [shot]\<rparr>)
      = (NewPlayer sprite80 ''A'' 230 100)\<lparr>Health := 0, Bullets := [shot]\<rparr>
   \<and> lastShot (Player_Update pressAll False (NewPlayer sprite80 ''A'' 230 100)) = 1000000000
   \<and> X (Player_Update pressAll False (NewPlayer sprite80 ''A'' 230 100)) = 231.7"
  using downed_player_update_noop
    [of "(NewPlayer sprite80 ''A'' 230 100)\<lparr>Health := 0, Bullets := [shot]\<rparr>" pressAll False]
  by (simp add: Player_Update_def NewPlayer_def pressAll_def MaxHealth_def ShootCooldown_def
      Shoot_def PlayerSpeed_def PlayerSprintSpeedFactor_def Let_def)

section \<open>Merging received events\<close>

lemma update_twice:
  "mergeEvent spr (EventPlayerUpdate u) (mergeEvent spr (EventPlayerUpdate u) g)
     = mergeEvent spr (EventPlayerUpdate u) g"
  by (simp add: mergeEvent_def Let_def)

lemma hit_once_remote:
  assumes "players g (VictimID hit) = Some q" and "Damage hit \<le> Health q"
  shows "players (mergeEvent spr (EventPlayerHit hit) g) (VictimID hit)
           = Some (q\<lparr>Health := Health q - Damage hit\<rparr>)"
  using assms by (simp add: mergeEvent_def Let_def)

lemma hit_twice_remote:
  assumes "players g (VictimID hit) = Some q" and "0 \<le> Damage hit"
    and "2 * Damage hit < Health q"
  shows "players (mergeEvent spr (EventPlayerHit hit) (mergeEvent spr (EventPlayerHit hit) g))
           (VictimID hit) = Some (q\<lparr>Health := Health q - 2 * Damage hit\<rparr>)"
proof -
  let ?g1 = "mergeEvent spr (EventPlayerHit hit) g"
  let ?q1 = "q\<lparr>Health := Health q - Damage hit\<rparr>"
  have one: "players ?g1 (VictimID hit) = Some ?q1"
    using assms by (intro hit_once_remote) simp_all
  have "Damage hit \<le> Health ?q1"
    using assms by simp
  with one have "players (mergeEvent spr (EventPlayerHit hit) ?g1) (VictimID hit)
                   = Some (?q1\<lparr>Health := Health ?q1 - Damage hit\<rparr>)"
    by (rule hit_once_remote)
  then show ?thesis by simp
qed

lemma hit_local:
  "VictimID hit = ID (player g) \<Longrightarrow>
     Health (player (mergeEvent spr (EventPlayerHit hit) g)) = Health (player g) - Damage hit
     \<and> ID (player (mergeEvent spr (EventPlayerHit hit) g)) = ID (player g)"
  by (simp add: mergeEvent_def Let_def split: option.splits)

text \<open>
  C6. Merging the same \<open>player_update\<close> twice gives the state that merging it once
  gives: the record of a remote player takes position, angle, health and bullets from the
  payload. Merging the same \<open>player_hit\<close> twice decrements the health of a known victim
  twice, when that health exceeds twice the damage carried (a non-negative amount), so
  with a positive damage the second merge changes the state again; the health of a local
  victim is decremented twice as well.
\<close>

theorem update_idempotent_hit_not:
  "mergeEvent spr (EventPlayerUpdate u) (mergeEvent spr (EventPlayerUpdate u) g)
     = mergeEvent spr (EventPlayerUpdate u) g
   \<and> (UID u \<noteq> ID (player g) \<longrightarrow>
        (\<exists>p. players (mergeEvent spr (EventPlayerUpdate u) g) (UID u) = Some p
           \<and> X p = UX u \<and> Y p = UY u \<and> Angle p = UAngle u
           \<and> Health p = UHealth u \<and> Bullets p = UBullets u))
   \<and> (players g (VictimID hit) = Some q \<and> 0 \<le> Damage hit \<and> 2 * Damage hit < Health q \<longrightarrow>
        players (mergeEvent spr (EventPlayerHit hit) g) (VictimID hit)
          = Some (q\<lparr>Health := Health q - Damage hit\<rparr>)
        \<and> players (mergeEvent spr (EventPlayerHit hit) (mergeEvent spr (EventPlayerHit hit) g))
            (VictimID hit) = Some (q\<lparr>Health := Health q - 2 * Damage hit\<rparr>)
        \<and> (0 < Damage hit \<longrightarrow>
             mergeEvent spr (EventPlayerHit hit) (mergeEvent spr (EventPlayerHit hit) g)
               \<noteq> mergeEvent spr (EventPlayerHit hit) g))
   \<and> (VictimID hit = ID (player g) \<longrightarrow>
        Health (player (mergeEvent spr (EventPlayerHit hit) (mergeEvent spr (EventPlayerHit hit) g)))
          = Health (player g) - 2 * Damage hit)"
proof (intro conjI impI)
  show "mergeEvent spr (EventPlayerUpdate u) (mergeEvent spr (EventPlayerUpdate u) g)
     = mergeEvent spr (EventPlayerUpdate u) g"
    by (rule update_twice)
next
  assume "UID u \<noteq> ID (player g)"
  then show "\<exists>p. players (mergeEvent spr (EventPlayerUpdate u) g) (UID u) = Some p
           \<and> X p = UX u \<and> Y p = UY u \<and> Angle p = UAngle u
           \<and> Health p = UHealth u \<and> Bullets p = UBullets u"
    by (simp add: mergeEvent_def Let_def)
next
  assume a: "players g (VictimID hit) = Some q \<and> 0 \<le> Damage hit \<and> 2 * Damage hit < Health q"
  then show one: "players (mergeEvent spr (EventPlayerHit hit) g) (VictimID hit)
          = Some (q\<lparr>Health := Health q - Damage hit\<rparr>)"
    by (intro hit_once_remote) simp_all
  from a show two: "players (mergeEvent spr (EventPlayerHit hit) (mergeEvent spr (EventPlayerHit hit) g))
            (VictimID hit) = Some (q\<lparr>Health := Health q - 2 * Damage hit\<rparr>)"
    by (intro hit_twice_remote) simp_all
  assume pos: "0 < Damage hit"
  show "mergeEvent spr (EventPlayerHit hit) (mergeEvent spr (EventPlayerHit hit) g)
               \<noteq> mergeEvent spr (EventPlayerHit hit) g"
  proof
    assume "mergeEvent spr (EventPlayerHit hit) (mergeEvent spr (EventPlayerHit hit) g)
              = mergeEvent spr (EventPlayerHit hit) g"
    with one two have "q\<lparr>Health := Health q - 2 * Damage hit\<rparr> = q\<lparr>Health := Health q - Damage hit\<rparr>"
      by simp
    then have "Health (q\<lparr>Health := Health q - 2 * Damage hit\<rparr>)
                 = Health (q\<lparr>Health := Health q - Damage hit\<rparr>)"
      by (rule arg_cong)
    with pos show False by simp
  qed
next
  assume loc: "VictimID hit = ID (player g)"
  let ?g1 = "mergeEvent spr (EventPlayerHit hit) g"
  from loc have 1: "Health (player ?g1) = Health (player g) - Damage hit"
    and 2: "VictimID hit = ID (player ?g1)"
    by (simp_all add: hit_local)
  from 2 have "Health (player (mergeEvent spr (EventPlayerHit hit) ?g1))
                 = Health (player ?g1) - Damage hit"
    by (simp add: hit_local)
  with 1 show "Health (player (mergeEvent spr (EventPlayerHit hit) ?g1))
          = Health (player g) - 2 * Damage hit"
    by simp
qed

text \<open>
  An update and a hit of 20 for the remote player at health 100, and two hits of 20 on the
  local player.
\<close>

theorem update_idempotent_hit_not_witness:
  "players (mergeEvent sprite80 (EventPlayerUpdate update111) (arena 100)) ''111''
     = Some ((target 70)\<lparr>X := 120, Y := 80, Angle := 1, Bullets := [shot]\<rparr>)
   \<and> mergeEvent sprite80 (EventPlayerUpdate update111)
       (mergeEvent sprite80 (EventPlayerUpdate update111) (arena 100))
     = mergeEvent sprite80 (EventPlayerUpdate update111) (arena 100)
   \<and> players (mergeEvent sprite80 (EventPlayerHit hit111) (arena 100)) ''111'' = Some (target 80)
   \<and> players (mergeEvent sprite80 (EventPlayerHit hit111)
                (mergeEvent sprite80 (EventPlayerHit hit111) (arena 100))) ''111''
     = Some (target 60)
   \<and> mergeEvent sprite80 (EventPlayerHit hit111)
       (mergeEvent sprite80 (EventPlayerHit hit111) (arena 100))
     \<noteq> mergeEvent sprite80 (EventPlayerHit hit111) (arena 100)
   \<and> Health (player (mergeEvent sprite80 hitA (mergeEvent sprite80 hitA lobby))) = 60"
  using update_idempotent_hit_not
    [where spr = sprite80 and u = update111 and g = "arena 100" and hit = hit111
       and q = "target 100"]
    update_idempotent_hit_not
    [where spr = sprite80 and u = update111 and g = lobby
       and hit = "\<lparr>VictimID = ''A'', Damage = 20\<rparr>" and q = "target 100"]
  by (simp add: arena_def hit111_def update111_def target_def NewPlayer_def mergeEvent_def
      hitA_def lobby_def MaxHealth_def)

section \<open>Visibility\<close>

lemma wallHits_empty:
  "(wallHits ray walls = []) = (\<forall>wall \<in> set walls. \<not> intersects ray wall)"
  by (induction walls) (auto simp: intersects_def split: prod.splits)

lemma hitPoints_empty:
  "(hitPoints ray objects = []) =
     (\<forall>obj \<in> set objects. \<forall>wall \<in> set (Walls obj). \<not> intersects ray wall)"
  by (induction objects) (auto simp: wallHits_empty)

lemma closestPoint_range:
  "closestPoint cx cy ps i mn minI = minI
   \<or> (i \<le> closestPoint cx cy ps i mn minI \<and> closestPoint cx cy ps i mn minI < i + length ps)"
proof (induction ps arbitrary: i mn minI)
  case Nil
  then show ?case by simp
next
  case (Cons p ps)
  let ?d2 = "(cx - fst p) * (cx - fst p) + (cy - snd p) * (cy - snd p)"
  show ?case
  proof (cases "?d2 < mn")
    case True
    with Cons.IH [of "Suc i" ?d2 i] show ?thesis
      by (auto simp: Let_def)
  next
    case False
    with Cons.IH [of "Suc i" mn minI] show ?thesis
      by (auto simp: Let_def)
  qed
qed

lemma closestPoint_in_range:
  "ps \<noteq> [] \<Longrightarrow> closestPoint cx cy ps 0 mn 0 < length ps"
  using closestPoint_range [of cx cy ps 0 mn 0] by auto

lemma castProbe_dropped:
  "hitPoints ray objects = [] \<Longrightarrow> castProbe cx cy objects ray = Inr []"
  by (simp add: castProbe_def)

lemma castProbe_one:
  assumes "hitPoints ray objects \<noteq> []"
  shows "\<exists>q \<in> set (hitPoints ray objects).
           castProbe cx cy objects ray = Inr [\<lparr>X1 = cx, Y1 = cy, X2 = fst q, Y2 = snd q\<rparr>]"
proof -
  let ?points = "hitPoints ray objects"
  let ?minI = "closestPoint cx cy ?points 0 PosInf 0"
  have lt: "?minI < length ?points"
    using assms by (rule closestPoint_in_range)
  then have "castProbe cx cy objects ray =
      Inr [\<lparr>X1 = cx, Y1 = cy, X2 = fst (?points ! ?minI), Y2 = snd (?points ! ?minI)\<rparr>]"
    by (simp add: castProbe_def index_def andThen_def Let_def)
  moreover have "?points ! ?minI \<in> set ?points"
    using lt by simp
  ultimately show ?thesis by blast
qed

lemma castProbe_Inr: "castProbe cx cy objects ray = Inr (probeResult cx cy objects ray)"
proof (cases "hitPoints ray objects = []")
  case True
  then show ?thesis
    by (simp add: probeResult_def castProbe_dropped)
next
  case False
  then obtain q where
    "castProbe cx cy objects ray = Inr [\<lparr>X1 = cx, Y1 = cy, X2 = fst q, Y2 = snd q\<rparr>]"
    using castProbe_one by blast
  then show ?thesis
    by (simp add: probeResult_def)
qed

lemma length_probeResult:
  "length (probeResult cx cy objects ray) = (if hitPoints ray objects = [] then 0 else 1)"
proof (cases "hitPoints ray objects = []")
  case True
  then show ?thesis
    by (simp add: probeResult_def castProbe_dropped)
next
  case False
  then obtain q where
    "castProbe cx cy objects ray = Inr [\<lparr>X1 = cx, Y1 = cy, X2 = fst q, Y2 = snd q\<rparr>]"
    using castProbe_one by blast
  with False show ?thesis
    by (simp add: probeResult_def)
qed

lemma castOffsets_eq:
  "castOffsets cx cy objects angle offsets =
     Inr (concat (map (\<lambda>offset. probeResult cx cy objects
                                  (NewRay cx cy rayLength (angle + offset))) offsets))"
  by (induction offsets) (simp_all add: castProbe_Inr andThen_def)

lemma castPoints_eq:
  "castPoints cx cy objects ps =
     Inr (concat (map (probeResult cx cy objects) (probesOf cx cy ps)))"
  by (induction ps)
    (simp_all add: castOffsets_eq andThen_def probesOf_def Let_def del: castOffsets.simps)

lemma Points_total: "Walls obj \<noteq> [] \<Longrightarrow> \<exists>ps. Points obj = Inr ps"
  by (cases "Walls obj") (simp_all add: Points_def Let_def)

lemma castObjects_eq:
  "\<forall>obj \<in> set objs. Walls obj \<noteq> [] \<Longrightarrow>
   castObjects cx cy objects objs =
     Inr (concat (map (probeResult cx cy objects) (probes cx cy objs)))"
proof (induction objs)
  case Nil
  then show ?case by (simp add: probes_def)
next
  case (Cons obj objs)
  then obtain ps where ps: "Points obj = Inr ps"
    using Points_total by fastforce
  from Cons have "castObjects cx cy objects objs =
      Inr (concat (map (probeResult cx cy objects) (probes cx cy objs)))"
    by simp
  with ps show ?case
    by (simp add: castPoints_eq andThen_def probes_def)
qed

lemma length_insertBy: "length (insertBy lt x xs) = Suc (length xs)"
  by (induction xs) simp_all

lemma length_sortSlice: "length (sortSlice lt xs) = length xs"
  by (induction xs) (simp_all add: sortSlice_def length_insertBy)

lemma length_results:
  "length (concat (map (probeResult cx cy objects) rays))
     = length (filter (\<lambda>ray. hitPoints ray objects \<noteq> []) rays)"
  by (induction rays) (simp_all add: length_probeResult)

lemma castRays_no_objects: "castRays cx cy [] = Inr []"
  by (simp add: castRays_def andThen_def sortSlice_def)

text \<open>
  C8. A probe ray that intersects no wall adds no result segment: the guard
  \<open>minI < len(points)\<close> drops it. A probe that intersects a wall adds one segment, from
  the viewpoint to one of its intersection points, and its read \<open>points[minI]\<close> is in
  range. For every viewpoint and every list of objects that each have at least one wall,
  the empty list and a scene without an outer boundary included, \<open>castRays\<close> returns
  without a fault: its result is the sorted list of what its probes add, one segment for
  every probe that intersects a wall and none for the others.
\<close>

theorem castRays_total:
  "((\<forall>obj \<in> set objects. \<forall>wall \<in> set (Walls obj). \<not> intersects ray wall) \<longrightarrow>
      castProbe cx cy objects ray = Inr [])
   \<and> ((\<exists>obj \<in> set objects. \<exists>wall \<in> set (Walls obj). intersects ray wall) \<longrightarrow>
      (\<exists>q \<in> set (hitPoints ray objects).
         castProbe cx cy objects ray = Inr [\<lparr>X1 = cx, Y1 = cy, X2 = fst q, Y2 = snd q\<rparr>]))
   \<and> ((\<forall>obj \<in> set objects. Walls obj \<noteq> []) \<longrightarrow>
      (\<exists>rays. castRays cx cy objects = Inr rays
         \<and> rays = sortSlice (\<lambda>a b. Angle_of a < Angle_of b)
                    (concat (map (probeResult cx cy objects) (probes cx cy objects)))
         \<and> length rays
             = length (filter (\<lambda>ray. hitPoints ray objects \<noteq> []) (probes cx cy objects))))"
proof (intro conjI impI)
  assume "\<forall>obj \<in> set objects. \<forall>wall \<in> set (Walls obj). \<not> intersects ray wall"
  then have "hitPoints ray objects = []"
    by (simp add: hitPoints_empty)
  then show "castProbe cx cy objects ray = Inr []"
    by (rule castProbe_dropped)
next
  assume "\<exists>obj \<in> set objects. \<exists>wall \<in> set (Walls obj). intersects ray wall"
  then have "hitPoints ray objects \<noteq> []"
    by (simp add: hitPoints_empty)
  then show "\<exists>q \<in> set (hitPoints ray objects).
         castProbe cx cy objects ray = Inr [\<lparr>X1 = cx, Y1 = cy, X2 = fst q, Y2 = snd q\<rparr>]"
    by (rule castProbe_one)
next
  assume "\<forall>obj \<in> set objects. Walls obj \<noteq> []"
  then have "castObjects cx cy objects objects =
      Inr (concat (map (probeResult cx cy objects) (probes cx cy objects)))"
    by (rule castObjects_eq)
  then show "\<exists>rays. castRays cx cy objects = Inr rays
         \<and> rays = sortSlice (\<lambda>a b. Angle_of a < Angle_of b)
                    (concat (map (probeResult cx cy objects) (probes cx cy objects)))
         \<and> length rays
             = length (filter (\<lambda>ray. hitPoints ray objects \<noteq> []) (probes cx cy objects))"
    by (simp add: castRays_def andThen_def length_sortSlice length_results)
qed

lemma Intersection_shortRay:
  "Intersection shortRay \<lparr>X1 = Float 5, Y1 = Float 5, X2 = Float 5, Y2 = Float 9\<rparr>
     = (0, 0, False)"
  by (simp add: Intersection_def denom_def tNum_def uNum_def shortRay_def Let_def
      float64_ops feq_def)

lemma Intersection_crossRay:
  "Intersection crossRay \<lparr>X1 = Float 5, Y1 = Float 5, X2 = Float 5, Y2 = Float 9\<rparr>
     = (Float 5, Float 7, True)"
  by (simp add: Intersection_def denom_def tNum_def uNum_def crossRay_def Let_def
      float64_ops feq_def)

text \<open>
  One wall and no outer boundary: a probe that stops short of the wall, and one that
  crosses it.
\<close>

theorem castRays_total_witness:
  "\<not> intersects shortRay \<lparr>X1 = Float 5, Y1 = Float 5, X2 = Float 5, Y2 = Float 9\<rparr>
   \<and> castProbe (Float 0) (Float 0) [post9] shortRay = Inr []
   \<and> intersects crossRay \<lparr>X1 = Float 5, Y1 = Float 5, X2 = Float 5, Y2 = Float 9\<rparr>
   \<and> castProbe (Float 0) (Float 7) [post9] crossRay
       = Inr [\<lparr>X1 = Float 0, Y1 = Float 7, X2 = Float 5, Y2 = Float 7\<rparr>]
   \<and> Walls post9 \<noteq> []
   \<and> (\<exists>rays. castRays (Float 0) (Float 0) [post9] = Inr rays
        \<and> length rays
            = length (filter (\<lambda>ray. hitPoints ray [post9] \<noteq> []) (probes (Float 0) (Float 0) [post9])))"
  using castRays_total [of "[post9]" shortRay "Float 0" "Float 0"]
    castRays_total [of "[post9]" crossRay "Float 0" "Float 7"]
  by (simp add: post9_def intersects_def Intersection_shortRay Intersection_crossRay)

end
